theory Spec2Isabelle
  imports Main "HOL-Library.Word"
begin

section \<open>The TCP connection of the transport layer (tcpconnection.cc)\<close>

text \<open>
  A shallow embedding of \<^verbatim>\<open>src/maidsafe/transport/tcpconnection.cc\<close>. Every member
  function of \<^verbatim>\<open>TcpConnection\<close> is a function from the connection's state to its new
  state. What the connection does to its collaborators (the error and message callbacks
  of the transport, the registry, the socket, the timer) is appended, in order, to a
  trace kept in the state.
\<close>

subsection \<open>Constants and types declared outside the file\<close>

type_synonym byte = "8 word"

text \<open>\<^verbatim>\<open>Timeout\<close> is a duration; it is modelled as a number of ticks.\<close>

type_synonym Timeout = int

text \<open>
  The header that declares \<^verbatim>\<open>DataSize\<close>, \<^verbatim>\<open>Timeout\<close> and the \<^verbatim>\<open>k...\<close> constants is not
  part of the sources, so they are parameters of the model, and so is the platform:
  \<^item> \<open>sizeof_DataSize\<close> is \<^verbatim>\<open>sizeof(DataSize)\<close> in bytes, and \<open>big_endian\<close> says in which
    order the platform stores the bytes of an integer;
  \<^item> \<open>sizeof_string\<close> is \<^verbatim>\<open>sizeof(std::string)\<close>;
  \<^item> \<open>kMaxTransportMessageSize\<close>, \<open>kMinTimeout\<close>, \<open>kDefaultInitialTimeout\<close> and
    \<open>kImmediateTimeout\<close> are the constants of these names;
  \<^item> \<open>times_kTimeoutFactor n\<close> is \<^verbatim>\<open>static_cast<Timeout>(n * kTimeoutFactor)\<close>, whatever
    the type and the value of \<^verbatim>\<open>kTimeoutFactor\<close> are.
\<close>

record config =
  sizeof_DataSize :: nat
  big_endian :: bool
  sizeof_string :: nat
  kMaxTransportMessageSize :: nat
  times_kTimeoutFactor :: "nat \<Rightarrow> Timeout"
  kMinTimeout :: Timeout
  kDefaultInitialTimeout :: Timeout
  kImmediateTimeout :: Timeout

datatype TransportCondition =
  kReceiveTimeout | kReceiveFailure | kSendTimeout | kSendFailure | kMessageSizeTooLarge

subsection \<open>Memory of the buffer\<close>

text \<open>
  A cell of \<^verbatim>\<open>buffer_\<close> holds a byte that was written as a byte (\<open>Byte\<close>), or is as
  \<^verbatim>\<open>Allocate\<close> left it (\<open>Indeterminate\<close>), or is the \<open>i\<close>-th byte of the in-memory
  representation of a \<^verbatim>\<open>std::string\<close> object whose characters are \<open>d\<close>
  (\<open>StringObject d i\<close>): the object's pointer and size fields, not its characters.
\<close>

datatype cell = Byte byte | Indeterminate | StringObject "byte list" nat

text \<open>
  Modelled from the spec: the class of \<^verbatim>\<open>buffer_\<close> is not part of the sources. The spec
  calls it a resizable byte container that is reallocated for every operation:
  \<^verbatim>\<open>Allocate(n)\<close> gives a buffer of \<open>n\<close> bytes, \<^verbatim>\<open>Size()\<close> is their number, and nothing
  is said of their contents.
\<close>

definition Allocate :: "nat \<Rightarrow> cell list" where
  "Allocate n = replicate n Indeterminate"

text \<open>Writing \<open>new\<close> through a pointer to offset \<open>off\<close> of a buffer. What is written
  past the buffer's end lands in memory that is not the connection's, and is left out.\<close>

definition store :: "nat \<Rightarrow> cell list \<Rightarrow> cell list \<Rightarrow> cell list" where
  "store off new buf =
     take off buf @ take (length buf - off) new @ drop (off + length new) buf"

text \<open>Reading cells as bytes; \<open>None\<close> when one of them holds no determinate byte.\<close>

fun cell_bytes :: "cell list \<Rightarrow> byte list option" where
  "cell_bytes [] = Some []"
| "cell_bytes (Byte b # cs) = map_option ((#) b) (cell_bytes cs)"
| "cell_bytes (Indeterminate # cs) = None"
| "cell_bytes (StringObject d i # cs) = None"

subsection \<open>The length field\<close>

fun le_bytes :: "nat \<Rightarrow> nat \<Rightarrow> byte list" where
  "le_bytes 0 n = []"
| "le_bytes (Suc k) n = word_of_nat (n mod 256) # le_bytes k (n div 256)"

fun le_value :: "byte list \<Rightarrow> nat" where
  "le_value [] = 0"
| "le_value (b # bs) = unat b + 256 * le_value bs"

text \<open>
  Modelled from the spec: \<^verbatim>\<open>DataSize\<close> is declared outside the sources; the spec calls
  the length field a fixed-width unsigned integer in native byte order. So
  \<^verbatim>\<open>DataSize msg_size = data.size()\<close> keeps the size modulo \<open>2 ^ (8 * sizeof_DataSize)\<close>.
\<close>

definition to_DataSize :: "config \<Rightarrow> nat \<Rightarrow> nat" where
  "to_DataSize cfg n = n mod 256 ^ sizeof_DataSize cfg"

text \<open>\<^verbatim>\<open>*reinterpret_cast<DataSize*>(buffer_.Data()) = msg_size\<close> stores these bytes.\<close>

definition encode_DataSize :: "config \<Rightarrow> nat \<Rightarrow> byte list" where
  "encode_DataSize cfg n =
     (if big_endian cfg then rev (le_bytes (sizeof_DataSize cfg) n)
      else le_bytes (sizeof_DataSize cfg) n)"

definition decode_DataSize :: "config \<Rightarrow> byte list \<Rightarrow> nat" where
  "decode_DataSize cfg bs = le_value (if big_endian cfg then rev bs else bs)"

text \<open>\<^verbatim>\<open>*reinterpret_cast<DataSize*>(buffer_.Data())\<close> read back.\<close>

definition load_DataSize :: "config \<Rightarrow> cell list \<Rightarrow> nat option" where
  "load_DataSize cfg cells =
     (if length cells < sizeof_DataSize cfg then None
      else map_option (decode_DataSize cfg) (cell_bytes (take (sizeof_DataSize cfg) cells)))"

text \<open>The object representation of a \<^verbatim>\<open>std::string\<close> holding \<open>d\<close>.\<close>

definition string_object :: "config \<Rightarrow> byte list \<Rightarrow> cell list" where
  "string_object cfg d = map (StringObject d) [0..<sizeof_string cfg]"

subsection \<open>The connection\<close>

text \<open>
  The events of the trace, one for every call that leaves the connection: the error
  callback \<^verbatim>\<open>on_error_\<close>, the message callback \<^verbatim>\<open>on_message_received_\<close>, the registry's
  \<^verbatim>\<open>RemoveConnection\<close>, \<^verbatim>\<open>socket_.close()\<close>, \<^verbatim>\<open>timer_.cancel()\<close>, the arming of the timer
  (\<^verbatim>\<open>expires_from_now\<close> with \<^verbatim>\<open>async_wait\<close>), \<^verbatim>\<open>async_read\<close> of so many bytes with the
  handler that is bound to it (\<^verbatim>\<open>HandleSize\<close> or \<^verbatim>\<open>HandleRead\<close>), \<^verbatim>\<open>async_write\<close> of the
  buffer's cells (bound to \<^verbatim>\<open>HandleWrite\<close>) and \<^verbatim>\<open>async_connect\<close> (bound to
  \<^verbatim>\<open>HandleConnect\<close>). Two more mark where a call ends outside its defined behaviour:
  an \<^verbatim>\<open>assert\<close> that failed, and a read of buffer cells that hold no determinate bytes.
\<close>

datatype handler = HSize | HRead

datatype event =
    OnError TransportCondition
  | OnMessageReceived "byte list"
  | RemoveConnection
  | SocketClose
  | TimerCancel
  | TimerStart Timeout
  | AsyncRead nat handler
  | AsyncWrite "cell list"
  | AsyncConnect
  | AssertionFailed
  | IndeterminateRead

text \<open>
  \<open>socket_open\<close> is \<^verbatim>\<open>socket_.is_open()\<close>; \<open>timer\<close> is the deadline of the pending
  \<^verbatim>\<open>async_wait\<close>, if one is pending.
\<close>

record TcpConnection =
  socket_open :: bool
  timer :: "Timeout option"
  buffer :: "cell list"
  timeout_for_response :: Timeout
  trace :: "event list"

definition new_connection :: "config \<Rightarrow> TcpConnection" where
  "new_connection cfg =
     \<lparr>socket_open = False, timer = None, buffer = [],
      timeout_for_response = kDefaultInitialTimeout cfg, trace = []\<rparr>"

definition emit :: "event \<Rightarrow> TcpConnection \<Rightarrow> TcpConnection" where
  "emit e s = s\<lparr>trace := trace s @ [e]\<rparr>"

text \<open>The events a call added to the trace.\<close>

definition new_events :: "TcpConnection \<Rightarrow> TcpConnection \<Rightarrow> event list" where
  "new_events s s' = drop (length (trace s)) (trace s')"

definition socket_close :: "TcpConnection \<Rightarrow> TcpConnection" where
  "socket_close s = emit SocketClose (s\<lparr>socket_open := False\<rparr>)"

definition timer_cancel :: "TcpConnection \<Rightarrow> TcpConnection" where
  "timer_cancel s = emit TimerCancel (s\<lparr>timer := None\<rparr>)"

definition Close :: "TcpConnection \<Rightarrow> TcpConnection" where
  "Close s = emit RemoveConnection (timer_cancel (socket_close s))"

text \<open>\<^verbatim>\<open>expires_from_now\<close> sets the deadline of the one timer; \<^verbatim>\<open>async_wait\<close> waits for it.\<close>

definition StartTimeout :: "Timeout \<Rightarrow> TcpConnection \<Rightarrow> TcpConnection" where
  "StartTimeout t s = emit (TimerStart t) (s\<lparr>timer := Some t\<rparr>)"

definition StartReceiving :: "config \<Rightarrow> TcpConnection \<Rightarrow> TcpConnection" where
  "StartReceiving cfg s =
     StartTimeout (timeout_for_response s)
       (emit (AsyncRead (sizeof_DataSize cfg) HSize)
          (s\<lparr>buffer := Allocate (sizeof_DataSize cfg)\<rparr>))"

definition HandleTimeout :: "bool \<Rightarrow> TcpConnection \<Rightarrow> TcpConnection" where
  "HandleTimeout ec s = (if ec then s else socket_close s)"

definition HandleSize :: "config \<Rightarrow> bool \<Rightarrow> TcpConnection \<Rightarrow> TcpConnection" where
  "HandleSize cfg ec s =
     (if \<not> socket_open s then Close (emit (OnError kReceiveTimeout) s)
      else if ec then Close (emit (OnError kReceiveFailure) s)
      else case load_DataSize cfg (buffer s) of
             None \<Rightarrow> emit IndeterminateRead s
           | Some sz \<Rightarrow> emit (AsyncRead sz HRead) (s\<lparr>buffer := Allocate sz\<rparr>))"

text \<open>
  \<^verbatim>\<open>Send\<close>. The second store is line 156,
  \<^verbatim>\<open>*reinterpret_cast<std::string*>(buffer_.Data() + sizeof(DataSize)) = data\<close>:
  it assigns the string object to the memory after the length field. A failed
  \<^verbatim>\<open>assert\<close> ends the call. \<^verbatim>\<open>async_connect\<close> opens the socket.
\<close>

definition Send ::
  "config \<Rightarrow> byte list \<Rightarrow> Timeout \<Rightarrow> bool \<Rightarrow> TcpConnection \<Rightarrow> TcpConnection" where
  "Send cfg data timeout is_response s =
     (let msg_size = to_DataSize cfg (length data) in
      if msg_size > kMaxTransportMessageSize cfg then emit (OnError kMessageSizeTooLarge) s
      else
        let b0 = Allocate (msg_size + sizeof_DataSize cfg);
            b1 = store 0 (map Byte (encode_DataSize cfg msg_size)) b0;
            b2 = store (sizeof_DataSize cfg) (string_object cfg data) b1;
            s1 = s\<lparr>buffer := b2, timeout_for_response := timeout\<rparr>
        in if is_response then
             (if \<not> socket_open s1 then emit AssertionFailed s1
              else emit (AsyncWrite (buffer s1))
                     (StartTimeout (max (times_kTimeoutFactor cfg msg_size) (kMinTimeout cfg)) s1))
           else
             (if socket_open s1 then emit AssertionFailed s1
              else (emit AsyncConnect
                     (StartTimeout (kDefaultInitialTimeout cfg) s1))\<lparr>socket_open := True\<rparr>))"

text \<open>
  The message handler of the transport, \<^verbatim>\<open>on_message_received_\<close>: from the data and the
  initial value of \<^verbatim>\<open>response_timeout\<close> to the values it leaves in \<^verbatim>\<open>response\<close> and
  \<^verbatim>\<open>response_timeout\<close>.
\<close>

type_synonym message_handler = "byte list \<Rightarrow> Timeout \<Rightarrow> byte list \<times> Timeout"

definition DispatchMessage ::
  "config \<Rightarrow> message_handler \<Rightarrow> byte list \<Rightarrow> TcpConnection \<Rightarrow> TcpConnection" where
  "DispatchMessage cfg on_message_received data s =
     (let r = on_message_received data (kImmediateTimeout cfg);
          s1 = emit (OnMessageReceived data) s
      in if fst r = [] then s1 else Send cfg (fst r) (snd r) True s1)"

definition HandleRead ::
  "config \<Rightarrow> message_handler \<Rightarrow> bool \<Rightarrow> TcpConnection \<Rightarrow> TcpConnection" where
  "HandleRead cfg on_message_received ec s =
     (if \<not> socket_open s then Close (emit (OnError kReceiveTimeout) s)
      else if ec then Close (emit (OnError kReceiveFailure) s)
      else case cell_bytes (buffer s) of
             None \<Rightarrow> emit IndeterminateRead s
           | Some data \<Rightarrow> DispatchMessage cfg on_message_received data (timer_cancel s))"

definition HandleConnect :: "config \<Rightarrow> bool \<Rightarrow> TcpConnection \<Rightarrow> TcpConnection" where
  "HandleConnect cfg ec s =
     (if \<not> socket_open s then Close (emit (OnError kSendTimeout) s)
      else if ec then Close (emit (OnError kSendFailure) s)
      else emit (AsyncWrite (buffer s))
             (StartTimeout
                (max (times_kTimeoutFactor cfg (length (buffer s))) (kMinTimeout cfg)) s))"

definition HandleWrite :: "config \<Rightarrow> bool \<Rightarrow> TcpConnection \<Rightarrow> TcpConnection" where
  "HandleWrite cfg ec s =
     (if \<not> socket_open s then Close (emit (OnError kSendTimeout) s)
      else if ec then Close (emit (OnError kSendFailure) s)
      else if timeout_for_response s \<noteq> kImmediateTimeout cfg then StartReceiving cfg s
      else Close s)"

subsection \<open>What the I/O service does between two handlers\<close>

text \<open>A read that completes has stored the cells it received in \<^verbatim>\<open>buffer_\<close>.\<close>

definition read_completed :: "cell list \<Rightarrow> TcpConnection \<Rightarrow> TcpConnection" where
  "read_completed rx s = s\<lparr>buffer := store 0 rx (buffer s)\<rparr>"


text \<open>The receive path run on the cells of one frame: the length field, then the rest.\<close>

definition receive_frame ::
  "config \<Rightarrow> message_handler \<Rightarrow> cell list \<Rightarrow> TcpConnection \<Rightarrow> TcpConnection" where
  "receive_frame cfg on_message_received wire s =
     HandleRead cfg on_message_received False
       (read_completed (drop (sizeof_DataSize cfg) wire)
          (HandleSize cfg False
             (read_completed (take (sizeof_DataSize cfg) wire) (StartReceiving cfg s))))"

subsection \<open>A configuration and a message to run the code on\<close>

definition sample_config :: config where
  "sample_config =
     \<lparr>sizeof_DataSize = 4, big_endian = False, sizeof_string = 8,
      kMaxTransportMessageSize = 67108864, times_kTimeoutFactor = (\<lambda>n. int n),
      kMinTimeout = 500, kDefaultInitialTimeout = 10000, kImmediateTimeout = 0\<rparr>"

definition PING :: "byte list" where
  "PING = [80, 73, 78, 71]"

definition accepted_connection :: "config \<Rightarrow> TcpConnection" where
  "accepted_connection cfg = (new_connection cfg)\<lparr>socket_open := True\<rparr>"

section \<open>Properties\<close>

subsection \<open>Auxiliary facts\<close>

lemmas conn_defs = emit_def socket_close_def timer_cancel_def Close_def StartTimeout_def
  new_events_def

lemma cell_bytes_map_Byte: "cell_bytes (map Byte bs) = Some bs"
  by (induction bs) simp_all

lemma length_le_bytes: "length (le_bytes k n) = k"
  by (induction k arbitrary: n) simp_all

lemma le_value_le_bytes: "le_value (le_bytes k n) = n mod 256 ^ k"
proof (induction k arbitrary: n)
  case 0
  show ?case by simp
next
  case (Suc k)
  have "unat (word_of_nat (n mod 256) :: byte) = n mod 256"
    by (simp add: unat_of_nat)
  then show ?case
    using Suc.IH [of "n div 256"] by (simp add: mod_mult2_eq)
qed

lemma le_bytes_4:
  "le_bytes 4 n =
    [word_of_nat (n mod 256), word_of_nat (n div 256 mod 256),
     word_of_nat (n div 256 div 256 mod 256), word_of_nat (n div 256 div 256 div 256 mod 256)]"
proof -
  have e: "(4::nat) = Suc (Suc (Suc (Suc 0)))" by simp
  show ?thesis unfolding e by simp
qed

lemma length_encode_DataSize: "length (encode_DataSize cfg n) = sizeof_DataSize cfg"
  by (simp add: encode_DataSize_def length_le_bytes)

text \<open>The length field read back is the length that was stored, as far as it fits the
  field.\<close>

lemma decode_encode_DataSize:
  "decode_DataSize cfg (encode_DataSize cfg n) = n mod 256 ^ sizeof_DataSize cfg"
  by (simp add: decode_DataSize_def encode_DataSize_def le_value_le_bytes)

lemma to_DataSize_small: "n < 256 ^ sizeof_DataSize cfg \<Longrightarrow> to_DataSize cfg n = n"
  by (simp add: to_DataSize_def)

lemma StartReceiving_fields:
  "socket_open (StartReceiving cfg s) = socket_open s"
  "buffer (StartReceiving cfg s) = Allocate (sizeof_DataSize cfg)"
  by (simp_all add: StartReceiving_def conn_defs)

lemma read_completed_fields:
  "socket_open (read_completed rx s) = socket_open s"
  "length rx = length (buffer s) \<Longrightarrow> buffer (read_completed rx s) = rx"
  by (simp_all add: read_completed_def store_def)

lemma HandleSize_reads_length:
  assumes "socket_open s" and "buffer s = map Byte rx" and "length rx = sizeof_DataSize cfg"
  shows "HandleSize cfg False s
           = emit (AsyncRead (decode_DataSize cfg rx) HRead)
               (s\<lparr>buffer := Allocate (decode_DataSize cfg rx)\<rparr>)"
  using assms by (simp add: HandleSize_def load_DataSize_def cell_bytes_map_Byte)

text \<open>What \<^verbatim>\<open>Send\<close> leaves in the buffer when the size check passes: the length field,
  then as much of the string object as fits, then what \<^verbatim>\<open>Allocate\<close> left.\<close>

lemma Send_buffer:
  assumes "to_DataSize cfg (length data) \<le> kMaxTransportMessageSize cfg"
  shows "buffer (Send cfg data timeout is_response s) =
           map Byte (encode_DataSize cfg (to_DataSize cfg (length data)))
           @ take (to_DataSize cfg (length data)) (string_object cfg data)
           @ replicate (to_DataSize cfg (length data) - sizeof_string cfg) Indeterminate"
  using assms
  by (simp add: Send_def Let_def conn_defs store_def Allocate_def length_encode_DataSize
      string_object_def)

text \<open>No cell after the length field holds a byte of the payload, for any payload that
  passes the size check.\<close>

lemma Send_copies_no_payload_byte:
  assumes "to_DataSize cfg (length data) \<le> kMaxTransportMessageSize cfg"
  shows "Byte b \<notin> set (drop (sizeof_DataSize cfg)
           (buffer (Send cfg data timeout is_response s)))"
proof -
  have "drop (sizeof_DataSize cfg) (buffer (Send cfg data timeout is_response s))
      = take (to_DataSize cfg (length data)) (string_object cfg data)
        @ replicate (to_DataSize cfg (length data) - sizeof_string cfg) Indeterminate"
    by (simp add: Send_buffer [OF assms] length_encode_DataSize)
  moreover have "Byte b \<notin> set (string_object cfg data)"
    by (auto simp add: string_object_def)
  ultimately show ?thesis
    by (auto dest: in_set_takeD)
qed

lemma length_Send_buffer:
  assumes "length data \<le> kMaxTransportMessageSize cfg"
    and "kMaxTransportMessageSize cfg < 256 ^ sizeof_DataSize cfg"
  shows "length (buffer (Send cfg data timeout is_response s))
           = length data + sizeof_DataSize cfg"
proof -
  have m: "to_DataSize cfg (length data) = length data"
    using assms by (simp add: to_DataSize_small)
  show ?thesis
    using assms by (simp add: Send_buffer m length_encode_DataSize string_object_def)
qed


text \<open>The write of a response: the deadline is scaled from the size of the payload.\<close>

lemma Send_response_deadline:
  assumes "length data \<le> kMaxTransportMessageSize cfg"
    and "kMaxTransportMessageSize cfg < 256 ^ sizeof_DataSize cfg"
    and "socket_open s"
  shows "timer (Send cfg data timeout True s)
           = Some (max (times_kTimeoutFactor cfg (length data)) (kMinTimeout cfg))"
proof -
  have m: "to_DataSize cfg (length data) = length data"
    using assms(1,2) by (simp add: to_DataSize_small)
  show ?thesis
    using assms by (simp add: Send_def Let_def m conn_defs)
qed

lemma Send_connect_opens:
  assumes "length data \<le> kMaxTransportMessageSize cfg"
    and "kMaxTransportMessageSize cfg < 256 ^ sizeof_DataSize cfg"
    and "\<not> socket_open s"
  shows "socket_open (Send cfg data timeout False s)"
proof -
  have m: "to_DataSize cfg (length data) = length data"
    using assms(1,2) by (simp add: to_DataSize_small)
  show ?thesis
    using assms by (simp add: Send_def Let_def m conn_defs)
qed

text \<open>The write after a connect: the deadline is scaled from the size of the buffer, which
  is the payload and the length field.\<close>

lemma HandleConnect_deadline:
  assumes "length data \<le> kMaxTransportMessageSize cfg"
    and "kMaxTransportMessageSize cfg < 256 ^ sizeof_DataSize cfg"
    and "\<not> socket_open s"
  shows "timer (HandleConnect cfg False (Send cfg data timeout False s))
           = Some (max (times_kTimeoutFactor cfg (length data + sizeof_DataSize cfg))
                       (kMinTimeout cfg))"
  using assms Send_connect_opens [OF assms]
  by (simp add: HandleConnect_def length_Send_buffer conn_defs)

lemma Send_trace: "\<exists>es. trace (Send cfg data timeout is_response s) = trace s @ es"
  by (simp add: Send_def Let_def conn_defs)

lemma DispatchMessage_empty:
  assumes "fst (h data (kImmediateTimeout cfg)) = []"
  shows "DispatchMessage cfg h data s = emit (OnMessageReceived data) s"
  using assms by (simp add: DispatchMessage_def Let_def)

lemma DispatchMessage_trace:
  "\<exists>es. trace (DispatchMessage cfg h data s) = trace s @ OnMessageReceived data # es"
proof (cases "fst (h data (kImmediateTimeout cfg)) = []")
  case True
  then show ?thesis by (simp add: DispatchMessage_def Let_def emit_def)
next
  case False
  obtain es where "trace (Send cfg (fst (h data (kImmediateTimeout cfg)))
      (snd (h data (kImmediateTimeout cfg))) True (emit (OnMessageReceived data) s))
      = trace (emit (OnMessageReceived data) s) @ es"
    using Send_trace by blast
  with False show ?thesis by (simp add: DispatchMessage_def Let_def emit_def)
qed

text \<open>The receive path, given the cells of a well-formed frame, hands the payload to the
  message handler.\<close>

lemma receive_frame_well_formed:
  assumes "socket_open s" and "length p < 256 ^ sizeof_DataSize cfg"
  shows "OnMessageReceived p \<in> set (trace
           (receive_frame cfg h (map Byte (encode_DataSize cfg (length p) @ p)) s))"
proof -
  define s1 where
    "s1 = read_completed (map Byte (encode_DataSize cfg (length p))) (StartReceiving cfg s)"
  have s1: "socket_open s1" "buffer s1 = map Byte (encode_DataSize cfg (length p))"
    using assms(1)
    by (simp_all add: s1_def read_completed_fields StartReceiving_fields Allocate_def
        length_encode_DataSize)
  define s2 where "s2 = HandleSize cfg False s1"
  have dec: "decode_DataSize cfg (encode_DataSize cfg (length p)) = length p"
    using assms(2) by (simp add: decode_encode_DataSize)
  have s2: "socket_open s2" "buffer s2 = Allocate (length p)"
    using HandleSize_reads_length [OF s1(1) s1(2) length_encode_DataSize] s1(1)
    by (simp_all add: s2_def dec emit_def)
  define s3 where "s3 = read_completed (map Byte p) s2"
  have s3: "socket_open s3" "cell_bytes (buffer s3) = Some p"
    using s2 by (simp_all add: s3_def read_completed_fields Allocate_def cell_bytes_map_Byte)
  obtain es where "trace (DispatchMessage cfg h p (timer_cancel s3))
      = trace (timer_cancel s3) @ OnMessageReceived p # es"
    using DispatchMessage_trace by blast
  then have "OnMessageReceived p \<in> set (trace (HandleRead cfg h False s3))"
    using s3 by (simp add: HandleRead_def)
  then show ?thesis
    by (simp add: receive_frame_def s3_def s2_def s1_def length_encode_DataSize)
qed

text \<open>The frame \<^verbatim>\<open>Send\<close> builds for the four bytes of \<open>PING\<close>.\<close>

lemma Send_PING_buffer:
  "buffer (Send sample_config PING 5000 True (accepted_connection sample_config))
     = [Byte 4, Byte 0, Byte 0, Byte 0,
        StringObject PING 0, StringObject PING 1, StringObject PING 2, StringObject PING 3]"
proof -
  have m: "to_DataSize sample_config (length PING) = 4"
    by (simp add: to_DataSize_def PING_def sample_config_def)
  have k: "to_DataSize sample_config (length PING) \<le> kMaxTransportMessageSize sample_config"
    by (simp add: m) (simp add: sample_config_def)
  have e: "encode_DataSize sample_config 4 = [4, 0, 0, 0]"
    by (simp add: encode_DataSize_def sample_config_def le_bytes_4)
  have o: "take 4 (string_object sample_config PING)
      = [StringObject PING 0, StringObject PING 1, StringObject PING 2, StringObject PING 3]"
    by (simp add: string_object_def sample_config_def upt_rec)
  have r: "4 - sizeof_string sample_config = 0"
    by (simp add: sample_config_def)
  show ?thesis
    by (simp add: Send_buffer [OF k] m e o r)
qed

text \<open>The receive path run on those cells reads the length 4 and then finds no payload
  bytes.\<close>

lemma receive_PING_frame:
  "trace (receive_frame sample_config (\<lambda>d t. ([], t))
         [Byte 4, Byte 0, Byte 0, Byte 0,
          StringObject PING 0, StringObject PING 1, StringObject PING 2, StringObject PING 3]
         (accepted_connection sample_config))
    = [AsyncRead 4 HSize, TimerStart 10000, AsyncRead 4 HRead, IndeterminateRead]"
proof -
  define s0 where "s0 = StartReceiving sample_config (accepted_connection sample_config)"
  have s0: "s0 = \<lparr>socket_open = True, timer = Some 10000, buffer = Allocate 4,
      timeout_for_response = 10000, trace = [AsyncRead 4 HSize, TimerStart 10000]\<rparr>"
    by (simp add: s0_def StartReceiving_def conn_defs accepted_connection_def new_connection_def
        sample_config_def)
  define s1 where "s1 = read_completed [Byte 4, Byte 0, Byte 0, Byte 0] s0"
  have s1: "s1 = \<lparr>socket_open = True, timer = Some 10000,
      buffer = [Byte 4, Byte 0, Byte 0, Byte 0],
      timeout_for_response = 10000, trace = [AsyncRead 4 HSize, TimerStart 10000]\<rparr>"
    by (simp add: s1_def s0 read_completed_def store_def Allocate_def)
  have l: "load_DataSize sample_config [Byte 4, Byte 0, Byte 0, Byte 0] = Some 4"
    by (simp add: load_DataSize_def decode_DataSize_def sample_config_def)
  define s2 where "s2 = HandleSize sample_config False s1"
  have s2: "s2 = \<lparr>socket_open = True, timer = Some 10000, buffer = Allocate 4,
      timeout_for_response = 10000,
      trace = [AsyncRead 4 HSize, TimerStart 10000, AsyncRead 4 HRead]\<rparr>"
    by (simp add: s2_def s1 HandleSize_def l emit_def)
  define s3 where "s3 = read_completed
     [StringObject PING 0, StringObject PING 1, StringObject PING 2, StringObject PING 3] s2"
  have s3: "s3 = \<lparr>socket_open = True, timer = Some 10000,
      buffer = [StringObject PING 0, StringObject PING 1, StringObject PING 2,
                StringObject PING 3],
      timeout_for_response = 10000,
      trace = [AsyncRead 4 HSize, TimerStart 10000, AsyncRead 4 HRead]\<rparr>"
    by (simp add: s3_def s2 read_completed_def store_def Allocate_def)
  have "trace (HandleRead sample_config (\<lambda>d t. ([], t)) False s3)
      = [AsyncRead 4 HSize, TimerStart 10000, AsyncRead 4 HRead, IndeterminateRead]"
    by (simp add: s3 HandleRead_def emit_def)
  moreover have "sizeof_DataSize sample_config = 4"
    by (simp add: sample_config_def)
  ultimately show ?thesis
    by (simp add: receive_frame_def s3_def s2_def s1_def s0_def)
qed

subsection \<open>Framing\<close>

text \<open>
  C1 (the code departs from the claim). The claim: a payload no larger than the maximum,
  encoded by \<^verbatim>\<open>Send\<close> as the length field followed by the payload bytes and decoded by
  the receive path, comes back unchanged. The code at the payload \<open>PING\<close>: after the
  length field the buffer holds cells of the string object that line 156 assigned there,
  not the bytes of \<open>PING\<close>, so the buffer is not the frame of \<open>PING\<close>, and the receive path
  run on it reads the length 4 and then no payload; run on the frame of \<open>PING\<close> the same
  receive path does hand \<open>PING\<close> to the message handler.
\<close>

theorem Send_frame_holds_string_object_not_payload:
  "buffer (Send sample_config PING 5000 True (accepted_connection sample_config))
     = [Byte 4, Byte 0, Byte 0, Byte 0,
        StringObject PING 0, StringObject PING 1, StringObject PING 2, StringObject PING 3]
   \<and> buffer (Send sample_config PING 5000 True (accepted_connection sample_config))
       \<noteq> map Byte (encode_DataSize sample_config (length PING) @ PING)
   \<and> OnMessageReceived PING \<notin> set (trace (receive_frame sample_config (\<lambda>d t. ([], t))
         (buffer (Send sample_config PING 5000 True (accepted_connection sample_config)))
         (accepted_connection sample_config)))
   \<and> OnMessageReceived PING \<in> set (trace (receive_frame sample_config (\<lambda>d t. ([], t))
         (map Byte (encode_DataSize sample_config (length PING) @ PING))
         (accepted_connection sample_config)))"
proof -
  have b: "buffer (Send sample_config PING 5000 True (accepted_connection sample_config))
     = [Byte 4, Byte 0, Byte 0, Byte 0,
        StringObject PING 0, StringObject PING 1, StringObject PING 2, StringObject PING 3]"
    by (rule Send_PING_buffer)
  have f: "map Byte (encode_DataSize sample_config (length PING) @ PING) ! 4 = Byte 80"
    by (simp add: nth_append length_encode_DataSize) (simp add: sample_config_def PING_def)
  have ne: "buffer (Send sample_config PING 5000 True (accepted_connection sample_config))
       \<noteq> map Byte (encode_DataSize sample_config (length PING) @ PING)"
  proof
    assume "buffer (Send sample_config PING 5000 True (accepted_connection sample_config))
       = map Byte (encode_DataSize sample_config (length PING) @ PING)"
    then have "buffer (Send sample_config PING 5000 True (accepted_connection sample_config)) ! 4
       = Byte 80"
      using f by simp
    then show False
      by (simp add: b)
  qed
  have r: "OnMessageReceived PING \<notin> set (trace (receive_frame sample_config (\<lambda>d t. ([], t))
         (buffer (Send sample_config PING 5000 True (accepted_connection sample_config)))
         (accepted_connection sample_config)))"
    unfolding b receive_PING_frame by simp
  have o: "socket_open (accepted_connection sample_config)"
    by (simp add: accepted_connection_def new_connection_def)
  have l: "length PING < 256 ^ sizeof_DataSize sample_config"
    by (simp add: PING_def sample_config_def)
  have w: "OnMessageReceived PING \<in> set (trace (receive_frame sample_config (\<lambda>d t. ([], t))
         (map Byte (encode_DataSize sample_config (length PING) @ PING))
         (accepted_connection sample_config)))"
    by (rule receive_frame_well_formed [OF o l])
  show ?thesis
    using b ne r w by blast
qed

text \<open>
  C10. \<^verbatim>\<open>HandleSize\<close>, run with the socket open and no error on a buffer that holds the
  received length field, allocates exactly as many bytes as the field says and starts a
  read for them. It adds no other event, so it reports no error, whatever the value is:
  the maximum message size does not occur in the statement.
\<close>

theorem HandleSize_no_bound_check:
  assumes "socket_open s" and "buffer s = map Byte rx" and "length rx = sizeof_DataSize cfg"
  shows "HandleSize cfg False s
           = emit (AsyncRead (decode_DataSize cfg rx) HRead)
               (s\<lparr>buffer := Allocate (decode_DataSize cfg rx)\<rparr>)
       \<and> length (buffer (HandleSize cfg False s)) = decode_DataSize cfg rx
       \<and> new_events s (HandleSize cfg False s) = [AsyncRead (decode_DataSize cfg rx) HRead]
       \<and> socket_open (HandleSize cfg False s)"
  using assms
  by (simp add: HandleSize_def load_DataSize_def cell_bytes_map_Byte Allocate_def conn_defs)

theorem HandleSize_no_bound_check_witness:
  "socket_open ((accepted_connection sample_config)\<lparr>buffer := map Byte [255, 255, 255, 255]\<rparr>)
   \<and> length [255, 255, 255, 255 :: byte] = sizeof_DataSize sample_config
   \<and> kMaxTransportMessageSize sample_config < decode_DataSize sample_config [255, 255, 255, 255]
   \<and> length (buffer (HandleSize sample_config False
        ((accepted_connection sample_config)\<lparr>buffer := map Byte [255, 255, 255, 255]\<rparr>)))
      = 4294967295
   \<and> new_events ((accepted_connection sample_config)\<lparr>buffer := map Byte [255, 255, 255, 255]\<rparr>)
        (HandleSize sample_config False
          ((accepted_connection sample_config)\<lparr>buffer := map Byte [255, 255, 255, 255]\<rparr>))
      = [AsyncRead 4294967295 HRead]"
proof -
  have o: "socket_open
      ((accepted_connection sample_config)\<lparr>buffer := map Byte [255, 255, 255, 255]\<rparr>)"
    by (simp add: accepted_connection_def new_connection_def)
  have b: "buffer ((accepted_connection sample_config)\<lparr>buffer := map Byte [255, 255, 255, 255]\<rparr>)
      = map Byte [255, 255, 255, 255]"
    by simp
  have l: "length [255, 255, 255, 255 :: byte] = sizeof_DataSize sample_config"
    by (simp add: sample_config_def)
  have d: "decode_DataSize sample_config [255, 255, 255, 255] = 4294967295"
    by (simp add: decode_DataSize_def sample_config_def)
  have k: "kMaxTransportMessageSize sample_config < 4294967295"
    by (simp add: sample_config_def)
  show ?thesis
    using HandleSize_no_bound_check [OF o b l] o l k
    by (simp add: d emit_def new_events_def Allocate_def)
qed

subsection \<open>Dispatch\<close>

text \<open>
  C2 (the code departs from the claim). The claim: when the message handler returns an
  empty reply, no response is sent and \<^verbatim>\<open>Close\<close> is called. The code on an open
  connection whose read of \<open>PING\<close> completed, with a handler that replies nothing:
  \<^verbatim>\<open>HandleRead\<close> cancels the timer, calls the handler and returns. No response is
  written, and \<^verbatim>\<open>Close\<close> is not called either: the socket is still open and the registry
  is not told.
\<close>

theorem DispatchMessage_empty_reply_does_not_close:
  "HandleRead sample_config (\<lambda>d t. ([], t)) False
      (read_completed (map Byte PING)
         ((accepted_connection sample_config)\<lparr>buffer := Allocate 4, timer := Some 10000\<rparr>))
    = \<lparr>socket_open = True, timer = None, buffer = map Byte PING,
       timeout_for_response = 10000, trace = [TimerCancel, OnMessageReceived PING]\<rparr>
   \<and> DispatchMessage sample_config (\<lambda>d t. ([], t)) PING (accepted_connection sample_config)
       = emit (OnMessageReceived PING) (accepted_connection sample_config)
   \<and> socket_open
        (DispatchMessage sample_config (\<lambda>d t. ([], t)) PING (accepted_connection sample_config))
   \<and> RemoveConnection \<notin> set (trace
        (DispatchMessage sample_config (\<lambda>d t. ([], t)) PING (accepted_connection sample_config)))"
proof -
  have "HandleRead sample_config (\<lambda>d t. ([], t)) False
      (read_completed (map Byte PING)
         ((accepted_connection sample_config)\<lparr>buffer := Allocate 4, timer := Some 10000\<rparr>))
    = \<lparr>socket_open = True, timer = None, buffer = map Byte PING,
       timeout_for_response = 10000, trace = [TimerCancel, OnMessageReceived PING]\<rparr>"
    by (simp add: HandleRead_def read_completed_def store_def Allocate_def PING_def
        DispatchMessage_def Let_def conn_defs accepted_connection_def new_connection_def
        sample_config_def)
  moreover have "DispatchMessage sample_config (\<lambda>d t. ([], t)) PING
       (accepted_connection sample_config)
       = emit (OnMessageReceived PING) (accepted_connection sample_config)"
    by (simp add: DispatchMessage_empty)
  ultimately show ?thesis
    by (simp add: emit_def accepted_connection_def new_connection_def)
qed

subsection \<open>Close\<close>

text \<open>
  C3 (the claim as stated fails). Two calls of \<^verbatim>\<open>Close\<close> on an accepted connection tell
  the registry twice, not once, and the second call is not a no-op: it changes the trace.
\<close>

theorem Close_twice_removes_twice:
  "count_list (trace (Close (Close (accepted_connection sample_config)))) RemoveConnection = 2
   \<and> count_list (trace (Close (Close (accepted_connection sample_config)))) RemoveConnection \<noteq> 1
   \<and> Close (Close (accepted_connection sample_config)) \<noteq> Close (accepted_connection sample_config)"
  by (simp add: conn_defs accepted_connection_def new_connection_def)

text \<open>
  C3 (as amended). Every call of \<^verbatim>\<open>Close\<close> closes the socket, cancels the timer and tells
  the registry once, in that order, so two calls tell the registry twice. The second
  call changes nothing of the connection's own state: after the first call the socket is
  closed and no deadline is armed, and they stay so; the buffer and the response timeout
  are never touched.
\<close>

theorem Close_twice:
  "new_events s (Close s) = [SocketClose, TimerCancel, RemoveConnection]
   \<and> new_events (Close s) (Close (Close s)) = [SocketClose, TimerCancel, RemoveConnection]
   \<and> count_list (new_events s (Close (Close s))) RemoveConnection = 2
   \<and> Close (Close s)
       = (Close s)\<lparr>trace := trace (Close s) @ [SocketClose, TimerCancel, RemoveConnection]\<rparr>
   \<and> \<not> socket_open (Close s)
   \<and> socket_open (Close (Close s)) = socket_open (Close s)
   \<and> timer (Close s) = None
   \<and> timer (Close (Close s)) = timer (Close s)
   \<and> buffer (Close (Close s)) = buffer s
   \<and> timeout_for_response (Close (Close s)) = timeout_for_response s"
  by (simp add: conn_defs)

subsection \<open>Send\<close>




text \<open>
  C6 (the code departs from the claim). The claim: the deadline of every write is the
  larger of the payload size times the factor and the minimum. The code for a payload of
  1000 bytes, with one tick per byte and a minimum of 500: the write of a response gets
  the deadline 1000, as the claim says; the write that \<^verbatim>\<open>HandleConnect\<close> starts after
  \<^verbatim>\<open>Send\<close> connected gets 1004, because it scales the size of the buffer, which holds
  the four bytes of the length field too.
\<close>

theorem HandleConnect_deadline_counts_length_field:
  "timer (HandleConnect sample_config False
       (Send sample_config (replicate 1000 0) 5000 False (new_connection sample_config)))
     = Some 1004
   \<and> timer (Send sample_config (replicate 1000 0) 5000 True (accepted_connection sample_config))
     = Some 1000
   \<and> max (times_kTimeoutFactor sample_config (length (replicate 1000 (0::byte))))
         (kMinTimeout sample_config) = 1000"
proof -
  have a: "length (replicate 1000 (0::byte)) \<le> kMaxTransportMessageSize sample_config"
    by (simp add: sample_config_def)
  have b: "kMaxTransportMessageSize sample_config < 256 ^ sizeof_DataSize sample_config"
    by (simp add: sample_config_def)
  have c: "\<not> socket_open (new_connection sample_config)"
    by (simp add: new_connection_def)
  have d: "socket_open (accepted_connection sample_config)"
    by (simp add: accepted_connection_def new_connection_def)
  show ?thesis
    using HandleConnect_deadline [OF a b c, of 5000] Send_response_deadline [OF a b d, of 5000]
    by (simp add: sample_config_def)
qed

subsection \<open>The completion handlers\<close>

text \<open>
  C5. The four completion handlers decide in the same order. With the socket no longer
  open each reports its timeout error (send for connect and write, receive for the two
  reads) and calls \<^verbatim>\<open>Close\<close>. Otherwise, with an error code, each reports its failure
  error and calls \<^verbatim>\<open>Close\<close>. Otherwise each goes on: \<^verbatim>\<open>HandleConnect\<close> arms the write
  deadline and writes the buffer, \<^verbatim>\<open>HandleWrite\<close> starts receiving or closes,
  \<^verbatim>\<open>HandleSize\<close> allocates the announced size and reads the body, \<^verbatim>\<open>HandleRead\<close> cancels
  the timer and dispatches. Reporting an error and closing adds exactly the report, the
  socket's close, the timer's cancel and the removal from the registry to the trace.
\<close>

theorem completion_handlers_priority:
  "(\<not> socket_open s \<longrightarrow>
       HandleConnect cfg ec s = Close (emit (OnError kSendTimeout) s)
     \<and> HandleWrite cfg ec s = Close (emit (OnError kSendTimeout) s)
     \<and> HandleSize cfg ec s = Close (emit (OnError kReceiveTimeout) s)
     \<and> HandleRead cfg h ec s = Close (emit (OnError kReceiveTimeout) s))
   \<and> (socket_open s \<and> ec \<longrightarrow>
       HandleConnect cfg ec s = Close (emit (OnError kSendFailure) s)
     \<and> HandleWrite cfg ec s = Close (emit (OnError kSendFailure) s)
     \<and> HandleSize cfg ec s = Close (emit (OnError kReceiveFailure) s)
     \<and> HandleRead cfg h ec s = Close (emit (OnError kReceiveFailure) s))
   \<and> (socket_open s \<and> \<not> ec \<longrightarrow>
       new_events s (HandleConnect cfg ec s)
         = [TimerStart (max (times_kTimeoutFactor cfg (length (buffer s))) (kMinTimeout cfg)),
            AsyncWrite (buffer s)]
     \<and> HandleWrite cfg ec s
         = (if timeout_for_response s \<noteq> kImmediateTimeout cfg then StartReceiving cfg s
            else Close s)
     \<and> (\<forall>n. load_DataSize cfg (buffer s) = Some n \<longrightarrow>
            HandleSize cfg ec s = emit (AsyncRead n HRead) (s\<lparr>buffer := Allocate n\<rparr>))
     \<and> (\<forall>d. cell_bytes (buffer s) = Some d \<longrightarrow>
            HandleRead cfg h ec s = DispatchMessage cfg h d (timer_cancel s)))
   \<and> new_events s (Close (emit (OnError e) s))
        = [OnError e, SocketClose, TimerCancel, RemoveConnection]"
  by (simp add: HandleConnect_def HandleWrite_def HandleSize_def HandleRead_def conn_defs)

theorem completion_handlers_priority_witness:
  "\<not> socket_open (new_connection sample_config)
   \<and> HandleSize sample_config False (new_connection sample_config)
       = Close (emit (OnError kReceiveTimeout) (new_connection sample_config))
   \<and> HandleConnect sample_config True (new_connection sample_config)
       = Close (emit (OnError kSendTimeout) (new_connection sample_config))
   \<and> socket_open (accepted_connection sample_config)
   \<and> HandleWrite sample_config True (accepted_connection sample_config)
       = Close (emit (OnError kSendFailure) (accepted_connection sample_config))
   \<and> HandleRead sample_config (\<lambda>d t. ([], t)) True (accepted_connection sample_config)
       = Close (emit (OnError kReceiveFailure) (accepted_connection sample_config))
   \<and> new_events (accepted_connection sample_config)
        (HandleConnect sample_config False (accepted_connection sample_config))
       = [TimerStart 500, AsyncWrite []]
   \<and> HandleRead sample_config (\<lambda>d t. ([], t)) False (accepted_connection sample_config)
       = DispatchMessage sample_config (\<lambda>d t. ([], t)) []
           (timer_cancel (accepted_connection sample_config))"
proof -
  have c: "\<not> socket_open (new_connection sample_config)"
    by (simp add: new_connection_def)
  have o: "socket_open (accepted_connection sample_config)"
    by (simp add: accepted_connection_def new_connection_def)
  have b: "buffer (accepted_connection sample_config) = []"
    by (simp add: accepted_connection_def new_connection_def)
  have m: "max (times_kTimeoutFactor sample_config 0) (kMinTimeout sample_config) = 500"
    by (simp add: sample_config_def)
  show ?thesis
    using completion_handlers_priority [of "new_connection sample_config" sample_config False]
      completion_handlers_priority [of "new_connection sample_config" sample_config True]
      completion_handlers_priority
        [of "accepted_connection sample_config" sample_config True "\<lambda>d t. ([], t)"]
      completion_handlers_priority
        [of "accepted_connection sample_config" sample_config False "\<lambda>d t. ([], t)"]
      c o
    by (simp add: b m)
qed

text \<open>
  C7. After a write that completed with the socket open and no error, \<^verbatim>\<open>HandleWrite\<close>
  starts receiving exactly when the recorded response timeout differs from
  \<open>kImmediateTimeout\<close>: then it issues the read of the length field and arms the response
  timeout, and the socket stays open. When the two are equal it calls \<^verbatim>\<open>Close\<close> and
  issues no read.
\<close>

theorem HandleWrite_success:
  assumes "socket_open s"
  shows "(timeout_for_response s \<noteq> kImmediateTimeout cfg \<longrightarrow>
            HandleWrite cfg False s = StartReceiving cfg s
          \<and> new_events s (HandleWrite cfg False s)
              = [AsyncRead (sizeof_DataSize cfg) HSize, TimerStart (timeout_for_response s)]
          \<and> socket_open (HandleWrite cfg False s))
       \<and> (timeout_for_response s = kImmediateTimeout cfg \<longrightarrow>
            HandleWrite cfg False s = Close s
          \<and> new_events s (HandleWrite cfg False s) = [SocketClose, TimerCancel, RemoveConnection]
          \<and> \<not> socket_open (HandleWrite cfg False s))
       \<and> ((\<exists>n k. AsyncRead n k \<in> set (new_events s (HandleWrite cfg False s)))
            = (timeout_for_response s \<noteq> kImmediateTimeout cfg))
       \<and> ((RemoveConnection \<in> set (new_events s (HandleWrite cfg False s)))
            = (timeout_for_response s = kImmediateTimeout cfg))"
  using assms by (auto simp add: HandleWrite_def StartReceiving_def conn_defs)

theorem HandleWrite_success_witness:
  "socket_open ((accepted_connection sample_config)\<lparr>timeout_for_response := 5000\<rparr>)
   \<and> new_events ((accepted_connection sample_config)\<lparr>timeout_for_response := 5000\<rparr>)
        (HandleWrite sample_config False
           ((accepted_connection sample_config)\<lparr>timeout_for_response := 5000\<rparr>))
       = [AsyncRead 4 HSize, TimerStart 5000]
   \<and> socket_open ((accepted_connection sample_config)\<lparr>timeout_for_response := 0\<rparr>)
   \<and> new_events ((accepted_connection sample_config)\<lparr>timeout_for_response := 0\<rparr>)
        (HandleWrite sample_config False
           ((accepted_connection sample_config)\<lparr>timeout_for_response := 0\<rparr>))
       = [SocketClose, TimerCancel, RemoveConnection]"
proof -
  have o5: "socket_open ((accepted_connection sample_config)\<lparr>timeout_for_response := 5000\<rparr>)"
    by (simp add: accepted_connection_def new_connection_def)
  have o0: "socket_open ((accepted_connection sample_config)\<lparr>timeout_for_response := 0\<rparr>)"
    by (simp add: accepted_connection_def new_connection_def)
  have k: "kImmediateTimeout sample_config = 0" "sizeof_DataSize sample_config = 4"
    by (simp_all add: sample_config_def)
  have t5: "timeout_for_response ((accepted_connection sample_config)\<lparr>timeout_for_response := 5000\<rparr>)
      \<noteq> kImmediateTimeout sample_config"
    by (simp add: k)
  have t0: "timeout_for_response ((accepted_connection sample_config)\<lparr>timeout_for_response := 0\<rparr>)
      = kImmediateTimeout sample_config"
    by (simp add: k)
  have w5: "new_events ((accepted_connection sample_config)\<lparr>timeout_for_response := 5000\<rparr>)
        (HandleWrite sample_config False
           ((accepted_connection sample_config)\<lparr>timeout_for_response := 5000\<rparr>))
       = [AsyncRead (sizeof_DataSize sample_config) HSize,
          TimerStart (timeout_for_response
            ((accepted_connection sample_config)\<lparr>timeout_for_response := 5000\<rparr>))]"
    using HandleWrite_success [OF o5, of sample_config] t5 by blast
  have w0: "new_events ((accepted_connection sample_config)\<lparr>timeout_for_response := 0\<rparr>)
        (HandleWrite sample_config False
           ((accepted_connection sample_config)\<lparr>timeout_for_response := 0\<rparr>))
       = [SocketClose, TimerCancel, RemoveConnection]"
    using HandleWrite_success [OF o0, of sample_config] t0 by blast
  show ?thesis
    using w5 w0 o5 o0 by (simp add: k)
qed



subsection \<open>The timer\<close>

text \<open>
  C9. \<^verbatim>\<open>HandleTimeout\<close> called with an error code (the wait was cancelled) changes
  nothing. Called without one (the deadline passed) it closes the socket and does nothing
  else: the registry is not told, the timer, the buffer and the response timeout are as
  before. \<^verbatim>\<open>StartTimeout\<close> leaves exactly the new deadline armed, whatever was armed
  before.
\<close>

theorem HandleTimeout_closes_socket_only:
  "HandleTimeout True s = s
   \<and> HandleTimeout False s = s\<lparr>socket_open := False, trace := trace s @ [SocketClose]\<rparr>
   \<and> new_events s (HandleTimeout False s) = [SocketClose]
   \<and> RemoveConnection \<notin> set (new_events s (HandleTimeout ec s))
   \<and> timer (StartTimeout t s) = Some t
   \<and> timer (StartTimeout t' (StartTimeout t s)) = Some t'"
  by (simp add: HandleTimeout_def socket_close_def emit_def new_events_def StartTimeout_def)

end
